theory Spec2Isabelle
  imports Complex_Main
begin

section \<open>Map Earth: pick-to-geo conversion, landmark store and drawing panel\<close>

text \<open>
  A shallow embedding of the two page variants of the repository:
  \<^verbatim>\<open>src/app/layout.jsx\<close> (the page with the advanced drawing panel, after the layout
  component) and \<^verbatim>\<open>src/unnamed/part_002\<close> (the earlier page with the simple panel).
  React state, refs and the zustand store are fields of one record; every handler is
  a function from state to state.
\<close>

subsection \<open>JavaScript numbers and strings\<close>

text \<open>
  A JavaScript number is modelled as a real, an infinity or NaN. Rounding and the sign
  of zero are not modelled: arithmetic on finite values is exact, and every zero
  stands for \<open>+0\<close> (the only divisor of the code is a square root, which is never
  \<open>-0\<close> here). What the code computes from a coordinate \<open>-0\<close> is outside the model.
\<close>

datatype jsnum = NaN | PInf | NInf | Num real

fun js_mul :: "jsnum \<Rightarrow> jsnum \<Rightarrow> jsnum" where
  "js_mul (Num a) (Num b) = Num (a * b)"
| "js_mul NaN _ = NaN"
| "js_mul _ NaN = NaN"
| "js_mul PInf (Num b) = (if b = 0 then NaN else if 0 < b then PInf else NInf)"
| "js_mul NInf (Num b) = (if b = 0 then NaN else if 0 < b then NInf else PInf)"
| "js_mul (Num a) PInf = (if a = 0 then NaN else if 0 < a then PInf else NInf)"
| "js_mul (Num a) NInf = (if a = 0 then NaN else if 0 < a then NInf else PInf)"
| "js_mul PInf PInf = PInf"
| "js_mul NInf NInf = PInf"
| "js_mul PInf NInf = NInf"
| "js_mul NInf PInf = NInf"

fun js_div :: "jsnum \<Rightarrow> jsnum \<Rightarrow> jsnum" where
  "js_div (Num a) (Num b) =
     (if b = 0 then (if a = 0 then NaN else if 0 < a then PInf else NInf)
      else Num (a / b))"
| "js_div NaN _ = NaN"
| "js_div _ NaN = NaN"
| "js_div (Num a) PInf = Num 0"
| "js_div (Num a) NInf = Num 0"
| "js_div PInf (Num b) = (if 0 \<le> b then PInf else NInf)"
| "js_div NInf (Num b) = (if 0 \<le> b then NInf else PInf)"
| "js_div _ _ = NaN"

fun js_sub :: "jsnum \<Rightarrow> jsnum \<Rightarrow> jsnum" where
  "js_sub (Num a) (Num b) = Num (a - b)"
| "js_sub NaN _ = NaN"
| "js_sub _ NaN = NaN"
| "js_sub (Num a) PInf = NInf"
| "js_sub (Num a) NInf = PInf"
| "js_sub PInf (Num b) = PInf"
| "js_sub NInf (Num b) = NInf"
| "js_sub PInf NInf = PInf"
| "js_sub NInf PInf = NInf"
| "js_sub PInf PInf = NaN"
| "js_sub NInf NInf = NaN"

text \<open>\<^verbatim>\<open>Math.acos\<close>: NaN outside \<open>[-1, 1]\<close> and on NaN.\<close>

fun js_acos :: "jsnum \<Rightarrow> jsnum" where
  "js_acos (Num v) = (if -1 \<le> v \<and> v \<le> 1 then Num (arccos v) else NaN)"
| "js_acos _ = NaN"

text \<open>\<^verbatim>\<open>Math.atan2(b, a)\<close> on finite arguments whose zeros are \<open>+0\<close>: the angle of the
  point \<open>(a, b)\<close> in \<open>(-\<pi>, \<pi>]\<close>, and 0 at the origin. JavaScript tells \<open>-0\<close> apart
  (\<^verbatim>\<open>Math.atan2(0, -0)\<close> is \<open>\<pi>\<close>, \<^verbatim>\<open>Math.atan2(-0, a)\<close> is \<open>-\<pi>\<close> for negative \<open>a\<close>);
  no statement below rests on the value at such arguments.\<close>

definition js_atan2 :: "real \<Rightarrow> real \<Rightarrow> real" where
  "js_atan2 b a =
     (if 0 < a then arctan (b / a)
      else if a < 0 then (if 0 \<le> b then arctan (b / a) + pi else arctan (b / a) - pi)
      else if 0 < b then pi / 2
      else if b < 0 then - (pi / 2)
      else 0)"

text \<open>The remainder operator \<^verbatim>\<open>%\<close> on finite operands, divisor not zero: the quotient
  is truncated towards zero, so the result has the sign of the dividend.\<close>

definition js_rem :: "real \<Rightarrow> real \<Rightarrow> real" where
  "js_rem a b = a - b * of_int (if 0 \<le> a / b then \<lfloor>a / b\<rfloor> else \<lceil>a / b\<rceil>)"

text \<open>A string is its list of UTF-16 code units. \<^verbatim>\<open>String.prototype.trim\<close> strips the
  white space and line terminator code units of ECMAScript from both ends.\<close>

type_synonym jsstring = "nat list"

definition js_whitespace :: "nat \<Rightarrow> bool" where
  "js_whitespace c =
     (c = 9 \<or> c = 10 \<or> c = 11 \<or> c = 12 \<or> c = 13 \<or> c = 32 \<or> c = 160 \<or> c = 5760
      \<or> (8192 \<le> c \<and> c \<le> 8202) \<or> c = 8232 \<or> c = 8233 \<or> c = 8239 \<or> c = 8287
      \<or> c = 12288 \<or> c = 65279)"

definition js_trim :: "jsstring \<Rightarrow> jsstring" where
  "js_trim s = rev (dropWhile js_whitespace (rev (dropWhile js_whitespace s)))"

subsection \<open>Pick-to-geo conversion (\<^verbatim>\<open>Earth.handleClick\<close>)\<close>

text \<open>The intersection point handed over by the renderer: three finite coordinates.\<close>

type_synonym point = "real \<times> real \<times> real"

text \<open>
  \<^verbatim>\<open>src/app/layout.jsx\<close>, lines 479-489:
  \<^verbatim>\<open>
    const x = point.x, y = point.y, z = point.z;
    const r = Math.sqrt(x*x + y*y + z*z);
    const lat = 90 - (Math.acos(y / r) * 180 / Math.PI);
    let lng = (Math.atan2(z, x) * 180 / Math.PI) % 360;
    if (lng < -180) lng += 360;
    if (lng > 180) lng -= 360;
    setDrawingPanel(true, lat, lng);
  \<close>
  The pair \<open>(lat, lng)\<close> passed to \<^verbatim>\<open>setDrawingPanel\<close>.
\<close>

definition handleClick_latlng :: "point \<Rightarrow> jsnum \<times> jsnum" where
  "handleClick_latlng p =
     (case p of (x, y, z) \<Rightarrow>
        let r = sqrt (x * x + y * y + z * z);
            lat = js_sub (Num 90)
                    (js_div (js_mul (js_acos (js_div (Num y) (Num r))) (Num 180)) (Num pi));
            lng0 = js_rem (js_atan2 z x * 180 / pi) 360;
            lng1 = (if lng0 < -180 then lng0 + 360 else lng0);
            lng2 = (if 180 < lng1 then lng1 - 360 else lng1)
        in (lat, Num lng2))"

text \<open>The same handler of the other page variant, \<^verbatim>\<open>src/unnamed/part_002\<close>,
  lines 42-52, translated from that file.\<close>

definition handleClick_latlng_part_002 :: "point \<Rightarrow> jsnum \<times> jsnum" where
  "handleClick_latlng_part_002 p =
     (case p of (x, y, z) \<Rightarrow>
        let r = sqrt (x * x + y * y + z * z);
            lat = js_sub (Num 90)
                    (js_div (js_mul (js_acos (js_div (Num y) (Num r))) (Num 180)) (Num pi));
            lng = js_rem (js_atan2 z x * 180 / pi) 360;
            lng = (if lng < -180 then lng + 360 else lng);
            lng = (if 180 < lng then lng - 360 else lng)
        in (lat, Num lng))"

text \<open>Sprite and graticule placement (\<^verbatim>\<open>Landmarks\<close>, lines 574-582, radius 5.15; the
  grid lines use radius 5): the Cartesian position of a finite latitude and longitude.\<close>

definition geo_position :: "real \<Rightarrow> real \<Rightarrow> real \<Rightarrow> point" where
  "geo_position r lat lng =
     (let phi = (90 - lat) * pi / 180;
          theta = lng * pi / 180
      in (r * sin phi * cos theta, r * cos phi, r * sin phi * sin theta))"

subsection \<open>The zustand store and the state of \<^verbatim>\<open>DrawingPanel\<close> (\<^verbatim>\<open>src/app/layout.jsx\<close>)\<close>

text \<open>The row handed to the persistence collaborator by \<^verbatim>\<open>handleSave\<close>, and a stored
  landmark: the same row with the identifier the server assigned.\<close>

record payload =
  lm_name :: jsstring
  lm_lat :: jsnum
  lm_lng :: jsnum
  drawing_data :: jsstring

record landmark = payload +
  lm_id :: nat

text \<open>
  The value of the store's \<^verbatim>\<open>landmarks\<close> field. The store's setter is
  \<^verbatim>\<open>setLandmarks: (landmarks) => set({ landmarks })\<close>: it stores its argument as it is.
  The realtime subscription calls it with the function
  \<^verbatim>\<open>prev => [...prev, payload.new]\<close>, so the field holds either an array or that
  function (\<open>Updater r\<close> for \<open>payload.new = r\<close>).
\<close>

datatype landmarks_value = Arr "landmark list" | Updater landmark

datatype js_error = PersistenceError jsstring | TypeError

datatype outcome = Done | Pending | Alert jsstring | AlertSaveFailed js_error | Threw js_error

definition js_str :: "string \<Rightarrow> jsstring" where
  "js_str s = map of_char s"

text \<open>
  The store (\<^verbatim>\<open>useStore\<close>, lines 39-50), the React state of \<^verbatim>\<open>DrawingPanel\<close>
  (\<^verbatim>\<open>name\<close>, \<^verbatim>\<open>history\<close>, \<^verbatim>\<open>historyIndex\<close>; lines 60-65), the ref to the fabric canvas
  and the insert calls that have been issued and have not settled yet. The canvas is
  represented by its content \<open>'c\<close> (what \<^verbatim>\<open>canvas.toJSON()\<close> returns and
  \<^verbatim>\<open>loadFromJSON\<close> restores), from the history handlers on the list of its objects;
  \<open>None\<close> is the null ref.

  \<open>saveHistory_historyIndex\<close> is the variable \<^verbatim>\<open>historyIndex\<close> as the closure
  \<^verbatim>\<open>saveHistory\<close> holds it. The closure is created inside the effect with the
  dependency list \<^verbatim>\<open>[isDrawingPanelOpen]\<close>, so it keeps the value \<^verbatim>\<open>historyIndex\<close>
  had in the render that opened the panel.
\<close>

record 'c app =
  isDrawingPanelOpen :: bool
  currentLat :: jsnum
  currentLng :: jsnum
  landmarks :: landmarks_value
  name :: jsstring
  history :: "'c list"
  historyIndex :: int
  fabricRef :: "'c option"
  saveHistory_historyIndex :: int
  inflight :: "payload list"

text \<open>What the fabric library contributes: the content of a new canvas, and the PNG
  data URL of a content (\<^verbatim>\<open>toDataURL('png')\<close>).\<close>

record 'c fabric =
  blank :: 'c
  toDataURL :: "'c \<Rightarrow> jsstring"

definition init :: "'c app" where
  "init = \<lparr> isDrawingPanelOpen = False, currentLat = Num 0, currentLng = Num 0,
            landmarks = Arr [], name = [], history = [], historyIndex = -1,
            fabricRef = None, saveHistory_historyIndex = -1, inflight = [] \<rparr>"

text \<open>\<^verbatim>\<open>setDrawingPanel: (open, lat = 0, lng = 0) => set({...})\<close>.\<close>

definition setDrawingPanel :: "bool \<Rightarrow> jsnum \<Rightarrow> jsnum \<Rightarrow> 'c app \<Rightarrow> 'c app" where
  "setDrawingPanel open' lat lng s =
     s\<lparr> isDrawingPanelOpen := open', currentLat := lat, currentLng := lng \<rparr>"

definition setLandmarks :: "landmarks_value \<Rightarrow> 'c app \<Rightarrow> 'c app" where
  "setLandmarks v s = s\<lparr> landmarks := v \<rparr>"

text \<open>\<^verbatim>\<open>addLandmark: (landmark) => set((state) => ({ landmarks: [...state.landmarks,
  landmark] }))\<close>. Spreading a function throws a TypeError and the store is not written.\<close>

definition addLandmark :: "landmark \<Rightarrow> 'c app \<Rightarrow> js_error + 'c app" where
  "addLandmark r s =
     (case landmarks s of
        Arr xs \<Rightarrow> Inr (s\<lparr> landmarks := Arr (xs @ [r]) \<rparr>)
      | Updater _ \<Rightarrow> Inl TypeError)"

text \<open>The realtime handler (lines 611-619):
  \<^verbatim>\<open>payload => { setLandmarks(prev => [...prev, payload.new]); }\<close>.\<close>

definition realtime_insert :: "landmark \<Rightarrow> 'c app \<Rightarrow> 'c app" where
  "realtime_insert r s = setLandmarks (Updater r) s"

subsection \<open>History (\<^verbatim>\<open>saveHistory\<close>, \<^verbatim>\<open>undo\<close>, \<^verbatim>\<open>redo\<close>)\<close>

text \<open>\<^verbatim>\<open>xs.slice(0, e)\<close> and \<^verbatim>\<open>xs[i]\<close> (\<open>None\<close> is \<^verbatim>\<open>undefined\<close>).\<close>

definition js_slice0 :: "'a list \<Rightarrow> int \<Rightarrow> 'a list" where
  "js_slice0 xs e = (if e < 0 then take (nat (int (length xs) + e)) xs else take (nat e) xs)"

definition js_index :: "'a list \<Rightarrow> int \<Rightarrow> 'a option" where
  "js_index xs i = (if 0 \<le> i \<and> i < int (length xs) then Some (xs ! nat i) else None)"

text \<open>
  The effect of lines 76-128, run when \<^verbatim>\<open>isDrawingPanelOpen\<close> has turned true: a new
  canvas, \<^verbatim>\<open>setHistory([initialState]); setHistoryIndex(0)\<close>, and the handler
  \<^verbatim>\<open>saveHistory\<close> registered with the \<^verbatim>\<open>historyIndex\<close> of this render.
\<close>

definition DrawingPanel_effect :: "'c fabric \<Rightarrow> 'c app \<Rightarrow> 'c app" where
  "DrawingPanel_effect lib s =
     s\<lparr> fabricRef := Some (blank lib), history := [blank lib], historyIndex := 0,
        saveHistory_historyIndex := historyIndex s \<rparr>"

text \<open>Rendering after a handler: the effect runs only when the flag has changed, and
  its body returns at once when the panel is closed (the cleanup disposes the canvas;
  the ref keeps pointing to it).\<close>

definition render :: "'c fabric \<Rightarrow> 'c app \<Rightarrow> 'c app \<Rightarrow> 'c app" where
  "render lib old new =
     (if isDrawingPanelOpen new \<and> \<not> isDrawingPanelOpen old then DrawingPanel_effect lib new
      else new)"

text \<open>
  \<^verbatim>\<open>
    const saveHistory = () => {
      if (!fabricRef.current) return;
      const state = fabricRef.current.toJSON();
      setHistory(prev => [...prev.slice(0, historyIndex + 1), state]);
      setHistoryIndex(prev => prev + 1);
    };
  \<close>
\<close>

definition saveHistory :: "'c app \<Rightarrow> 'c app" where
  "saveHistory s =
     (case fabricRef s of
        None \<Rightarrow> s
      | Some state \<Rightarrow>
          s\<lparr> history := js_slice0 (history s) (saveHistory_historyIndex s + 1) @ [state],
             historyIndex := historyIndex s + 1 \<rparr>)"

text \<open>The canvas fires \<^verbatim>\<open>object:added\<close>, \<^verbatim>\<open>object:modified\<close> or \<^verbatim>\<open>object:removed\<close>
  after a mutation that left it with content \<open>c\<close>; all three run \<^verbatim>\<open>saveHistory\<close>.\<close>

definition canvas_event :: "'c \<Rightarrow> 'c app \<Rightarrow> 'c app" where
  "canvas_event c s =
     (case fabricRef s of None \<Rightarrow> s | Some _ \<Rightarrow> saveHistory (s\<lparr> fabricRef := Some c \<rparr>))"

text \<open>
  \<^verbatim>\<open>canvas.loadFromJSON(json, callback)\<close> belongs to fabric. Given \<^verbatim>\<open>undefined\<close> it
  returns at once and never calls back. Otherwise it clears the canvas, which removes
  the objects one after the other from the bottom of the stack and fires
  \<^verbatim>\<open>object:removed\<close> after each removal; then it inserts the objects of the snapshot one
  after the other, in their order, and fires \<^verbatim>\<open>object:added\<close> after each insertion;
  then it calls back. Every one of these events runs \<^verbatim>\<open>saveHistory\<close>, the handler
  registered on the canvas. The content of a canvas is the list of its objects, bottom
  first.
\<close>

fun canvas_clear :: "'o list \<Rightarrow> 'o list app \<Rightarrow> 'o list app" where
  "canvas_clear [] s = s"
| "canvas_clear (x # xs) s = canvas_clear xs (canvas_event xs s)"

fun canvas_insert :: "'o list \<Rightarrow> 'o list \<Rightarrow> 'o list app \<Rightarrow> 'o list app" where
  "canvas_insert placed [] s = s"
| "canvas_insert placed (x # xs) s =
     canvas_insert (placed @ [x]) xs (canvas_event (placed @ [x]) s)"

definition loadFromJSON :: "'o list \<Rightarrow> 'o list app \<Rightarrow> 'o list app" where
  "loadFromJSON json s =
     (case fabricRef s of
        None \<Rightarrow> s
      | Some c \<Rightarrow> canvas_insert [] json (canvas_clear c s))"

text \<open>
  \<^verbatim>\<open>
    const undo = () => {
      if (historyIndex <= 0 || !fabricRef.current) return;
      fabricRef.current.loadFromJSON(history[historyIndex - 1], () => {
        fabricRef.current.renderAll();
        setHistoryIndex(historyIndex - 1);
      });
    };
  \<close>
  The callback sets the cursor from the \<^verbatim>\<open>historyIndex\<close> of the render in which the
  button was clicked, after the increments queued by the events of the load.
\<close>

definition undo :: "'o list app \<Rightarrow> 'o list app" where
  "undo s =
     (if historyIndex s \<le> 0 \<or> fabricRef s = None then s
      else case js_index (history s) (historyIndex s - 1) of
             None \<Rightarrow> s
           | Some snap \<Rightarrow> (loadFromJSON snap s)\<lparr> historyIndex := historyIndex s - 1 \<rparr>)"

text \<open>
  \<^verbatim>\<open>
    const redo = () => {
      if (historyIndex >= history.length - 1 || !fabricRef.current) return;
      fabricRef.current.loadFromJSON(history[historyIndex + 1], () => {
        fabricRef.current.renderAll();
        setHistoryIndex(historyIndex + 1);
      });
    };
  \<close>
\<close>

definition redo :: "'o list app \<Rightarrow> 'o list app" where
  "redo s =
     (if int (length (history s)) - 1 \<le> historyIndex s \<or> fabricRef s = None then s
      else case js_index (history s) (historyIndex s + 1) of
             None \<Rightarrow> s
           | Some snap \<Rightarrow> (loadFromJSON snap s)\<lparr> historyIndex := historyIndex s + 1 \<rparr>)"


text \<open>The invariant of the specification: the cursor is an index of the history and
  the snapshot there is the content of the canvas.\<close>

definition history_inv :: "'c app \<Rightarrow> bool" where
  "history_inv s =
     (0 \<le> historyIndex s \<and> historyIndex s < int (length (history s))
      \<and> fabricRef s \<noteq> None \<and> js_index (history s) (historyIndex s) = fabricRef s)"

subsection \<open>Saving (\<^verbatim>\<open>handleSave\<close>, lines 251-280)\<close>

text \<open>
  The handler up to its \<^verbatim>\<open>await\<close>:
  \<^verbatim>\<open>
    if (!name.trim()) { alert('Enter a designation'); return; }
    if (!fabricRef.current) return;
    const drawingData = fabricRef.current.toDataURL('png');
    const payload = { name, lat: currentLat, lng: currentLng, drawing_data: drawingData };
    ... await supabase.from('landmarks').insert([payload]).select();
  \<close>
  Issuing the insert appends the payload to \<open>inflight\<close>.
\<close>

definition save_payload :: "'c fabric \<Rightarrow> 'c \<Rightarrow> 'c app \<Rightarrow> payload" where
  "save_payload lib c s =
     \<lparr> lm_name = name s, lm_lat = currentLat s, lm_lng = currentLng s,
       drawing_data = toDataURL lib c \<rparr>"

definition handleSave :: "'c fabric \<Rightarrow> 'c app \<Rightarrow> outcome \<times> 'c app" where
  "handleSave lib s =
     (if js_trim (name s) = [] then (Alert (js_str ''Enter a designation''), s)
      else case fabricRef s of
             None \<Rightarrow> (Done, s)
           | Some c \<Rightarrow> (Pending, s\<lparr> inflight := inflight s @ [save_payload lib c s] \<rparr>))"

text \<open>How an insert settles: the promise rejects, or it resolves with an error
  (\<^verbatim>\<open>if (error) throw error\<close>), or it resolves with the stored row as \<^verbatim>\<open>data[0]\<close>.\<close>

datatype response = Rejected jsstring | Failed jsstring | Stored landmark

text \<open>
  The handler after its \<^verbatim>\<open>await\<close>:
  \<^verbatim>\<open>
      if (error) throw error;
      addLandmark(data[0]);
      setDrawingPanel(false);
      setName('');
    } catch (err) {
      console.error('Save failed', err);
      alert('Save failed: ' + err.message);
    }
  \<close>
\<close>

definition handleSave_settled :: "response \<Rightarrow> 'c app \<Rightarrow> outcome \<times> 'c app" where
  "handleSave_settled resp s =
     (case resp of
        Rejected msg \<Rightarrow> (AlertSaveFailed (PersistenceError msg), s)
      | Failed msg \<Rightarrow> (AlertSaveFailed (PersistenceError msg), s)
      | Stored row \<Rightarrow>
          (case addLandmark row s of
             Inl err \<Rightarrow> (AlertSaveFailed err, s)
           | Inr s1 \<Rightarrow> (Done, (setDrawingPanel False (Num 0) (Num 0) s1)\<lparr> name := [] \<rparr>)))"

fun failure :: "response \<Rightarrow> bool" where
  "failure (Rejected _) = True"
| "failure (Failed _) = True"
| "failure (Stored _) = False"

subsection \<open>User and collaborator events\<close>

datatype 'c event =
    Click point
  | Cancel
  | SetName jsstring
  | CanvasEvent 'c
  | Undo
  | Redo
  | Save
  | Settle response
  | Inserted landmark
  | Fetched "landmark list"

text \<open>One event: its handler, then the render that follows. \<open>Settle\<close> settles the
  oldest insert in flight.\<close>

definition handle :: "'o list fabric \<Rightarrow> 'o list event \<Rightarrow> 'o list app \<Rightarrow> 'o list app" where
  "handle lib e s =
     (case e of
        Click p \<Rightarrow> (case handleClick_latlng p of (lat, lng) \<Rightarrow> setDrawingPanel True lat lng s)
      | Cancel \<Rightarrow> setDrawingPanel False (Num 0) (Num 0) s
      | SetName n \<Rightarrow> s\<lparr> name := n \<rparr>
      | CanvasEvent c \<Rightarrow> canvas_event c s
      | Undo \<Rightarrow> undo s
      | Redo \<Rightarrow> redo s
      | Save \<Rightarrow> snd (handleSave lib s)
      | Settle resp \<Rightarrow>
          (case inflight s of
             [] \<Rightarrow> s
           | _ # rest \<Rightarrow> snd (handleSave_settled resp (s\<lparr> inflight := rest \<rparr>)))
      | Inserted r \<Rightarrow> realtime_insert r s
      | Fetched rows \<Rightarrow> setLandmarks (Arr rows) s)"

definition step :: "'o list fabric \<Rightarrow> 'o list app \<Rightarrow> 'o list event \<Rightarrow> 'o list app" where
  "step lib s e = render lib s (handle lib e s)"

definition run :: "'o list fabric \<Rightarrow> 'o list event list \<Rightarrow> 'o list app \<Rightarrow> 'o list app" where
  "run lib es s = foldl (step lib) s es"

subsection \<open>Filters (\<^verbatim>\<open>applyFilter\<close>, lines 164-190)\<close>








subsection \<open>Concrete inputs\<close>

text \<open>A canvas whose content is the list of the numbers of its objects, new canvases
  being empty; the data URL of a content is the list itself.\<close>

definition fabric_lists :: "nat list fabric" where
  "fabric_lists = \<lparr> blank = [], toDataURL = (\<lambda>c. c) \<rparr>"

text \<open>A first session: the panel is opened by a click on the sphere of radius 5 and
  three objects are added one after the other (edits E1, E2, E3).\<close>

definition three_edits :: "nat list event list" where
  "three_edits = [Click (5, 0, 0), CanvasEvent [1], CanvasEvent [1, 2], CanvasEvent [1, 2, 3]]"

text \<open>The same three edits in a second session, after the first one was cancelled.\<close>

definition second_session :: "nat list event list" where
  "second_session = three_edits @ Cancel # three_edits"

text \<open>The panel open with one object drawn and a name typed: three spaces, and a
  proper name.\<close>

definition blank_named :: "nat list app" where
  "blank_named = run fabric_lists [Click (5, 0, 0), CanvasEvent [1], SetName [32, 32, 32]] init"

definition named :: "nat list app" where
  "named = run fabric_lists [Click (5, 0, 0), CanvasEvent [1], SetName (js_str ''Outpost-1'')] init"




definition outpost :: landmark where
  "outpost = \<lparr> lm_name = js_str ''Outpost-1'', lm_lat = Num 12.34, lm_lng = Num (- 56.78),
               drawing_data = [], lm_id = 7 \<rparr>"

section \<open>Properties\<close>

subsection \<open>Auxiliary facts\<close>

lemma handleClick_latlng_origin: "handleClick_latlng (0, 0, 0) = (NaN, Num 0)"
  by (simp add: handleClick_latlng_def js_atan2_def js_rem_def)

lemmas trace_simps =
  run_def step_def handle_def render_def setDrawingPanel_def init_def DrawingPanel_effect_def
  canvas_event_def saveHistory_def loadFromJSON_def undo_def redo_def js_slice0_def js_index_def
  fabric_lists_def
  three_edits_def second_session_def blank_named_def named_def split_beta

lemma step_Save:
  "step lib s Save =
     (if js_trim (name s) = [] then s
      else case fabricRef s of
             None \<Rightarrow> s
           | Some c \<Rightarrow> s\<lparr> inflight := inflight s @ [save_payload lib c s] \<rparr>)"
  by (simp add: step_def handle_def handleSave_def render_def split: option.split)

lemma settled_failure: "failure resp \<Longrightarrow> snd (handleSave_settled resp s) = s"
  by (cases resp) (simp_all add: handleSave_settled_def)

lemma step_Settle_failure:
  "failure resp \<Longrightarrow> inflight s = p # ps \<Longrightarrow> step lib s (Settle resp) = s\<lparr> inflight := ps \<rparr>"
  by (simp add: step_def handle_def render_def settled_failure)

lemma step_Settle_nothing: "inflight s = [] \<Longrightarrow> step lib s (Settle resp) = s"
  by (simp add: step_def handle_def render_def)

lemma failed_attempt:
  assumes "failure resp" and "inflight s = []"
  shows "run lib [Save, Settle resp] s = s"
proof -
  have r: "run lib [Save, Settle resp] s = step lib (step lib s Save) (Settle resp)"
    by (simp add: run_def)
  show ?thesis
  proof (cases "js_trim (name s) = [] \<or> fabricRef s = None")
    case True
    then have "step lib s Save = s" by (auto simp: step_Save)
    then show ?thesis using assms(2) by (simp add: r step_Settle_nothing)
  next
    case False
    then obtain c where c: "fabricRef s = Some c" and n: "js_trim (name s) \<noteq> []" by auto
    have sv: "step lib s Save = s\<lparr> inflight := [save_payload lib c s] \<rparr>"
      using c n assms(2) by (simp add: step_Save)
    have "step lib (s\<lparr> inflight := [save_payload lib c s] \<rparr>) (Settle resp) =
            s\<lparr> inflight := [save_payload lib c s] \<rparr>\<lparr> inflight := [] \<rparr>"
      using assms(1) by (intro step_Settle_failure) simp_all
    then show ?thesis using assms(2) by (simp add: r sv)
  qed
qed

lemma repeated_Save:
  "js_trim (name s) \<noteq> [] \<Longrightarrow> fabricRef s = Some c \<Longrightarrow>
   run lib (replicate n Save) s =
     s\<lparr> inflight := inflight s @ replicate n (save_payload lib c s) \<rparr>"
proof (induction n arbitrary: s)
  case 0
  then show ?case by (simp add: run_def)
next
  case (Suc n)
  let ?s1 = "s\<lparr> inflight := inflight s @ [save_payload lib c s] \<rparr>"
  have p: "save_payload lib c ?s1 = save_payload lib c s" by (simp add: save_payload_def)
  have "run lib (replicate (Suc n) Save) s = run lib (replicate n Save) (step lib s Save)"
    by (simp add: run_def)
  also have "\<dots> = run lib (replicate n Save) ?s1" using Suc.prems by (simp add: step_Save)
  also have "\<dots> = ?s1\<lparr> inflight := inflight ?s1 @ replicate n (save_payload lib c ?s1) \<rparr>"
    using Suc.prems by (intro Suc.IH) simp_all
  also have "\<dots> = s\<lparr> inflight := inflight s @ replicate (Suc n) (save_payload lib c s) \<rparr>"
    by (simp add: p replicate_append_same)
  finally show ?case .
qed

subsection \<open>Angles\<close>

lemma js_rem_small:
  assumes "\<bar>a\<bar> < b"
  shows "js_rem a b = a"
proof -
  from assms have b: "0 < b" by linarith
  show ?thesis
  proof (cases "0 \<le> a / b")
    case True
    from assms b have "a / b < 1" by (simp add: field_simps)
    with True have "\<lfloor>a / b\<rfloor> = 0" by (simp add: floor_eq_iff)
    with True show ?thesis by (simp add: js_rem_def)
  next
    case False
    from assms b have "- 1 < a / b" by (simp add: field_simps)
    with False have "\<lceil>a / b\<rceil> = 0" by (simp add: ceiling_eq_iff)
    with False show ?thesis by (simp add: js_rem_def)
  qed
qed

lemma cos_nonpos_upper: "pi / 2 \<le> t \<Longrightarrow> t \<le> pi \<Longrightarrow> cos t \<le> 0"
  using cos_monotone_0_pi_le [of "pi / 2" t] by simp

lemma cos_pos_range:
  assumes "- pi < t" and "t \<le> pi" and "0 < cos t"
  shows "- (pi / 2) < t \<and> t < pi / 2"
proof -
  have up: "t < pi / 2"
  proof (rule ccontr)
    assume "\<not> t < pi / 2"
    with assms(2) have "cos t \<le> 0" by (simp add: cos_nonpos_upper)
    with assms(3) show False by simp
  qed
  have lo: "- (pi / 2) < t"
  proof (rule ccontr)
    assume "\<not> - (pi / 2) < t"
    with assms(1) have "pi / 2 \<le> - t" and "- t \<le> pi" by simp_all
    then have "cos (- t) \<le> 0" by (rule cos_nonpos_upper)
    with assms(3) show False by simp
  qed
  from lo up show ?thesis ..
qed

lemma cos_neg_upper:
  assumes "- pi < t" and "t \<le> pi" and "cos t < 0" and "0 \<le> sin t"
  shows "pi / 2 < t"
proof (rule ccontr)
  assume n: "\<not> pi / 2 < t"
  show False
  proof (cases "- (pi / 2) \<le> t")
    case True
    with n have "0 \<le> cos t" by (simp add: cos_ge_zero)
    with assms(3) show False by simp
  next
    case False
    with assms(1) have "0 < - t" and "- t < pi" using pi_gt_zero by linarith+
    then have "0 < sin (- t)" by (rule sin_gt_zero)
    with assms(4) show False by simp
  qed
qed

lemma cos_neg_lower:
  assumes "- pi < t" and "t \<le> pi" and "cos t < 0" and "sin t < 0"
  shows "t < - (pi / 2)"
proof (rule ccontr)
  assume n: "\<not> t < - (pi / 2)"
  show False
  proof (cases "t \<le> pi / 2")
    case True
    with n have "0 \<le> cos t" by (simp add: cos_ge_zero)
    with assms(3) show False by simp
  next
    case False
    with assms(2) have "0 \<le> t" and "t \<le> pi" using pi_gt_zero by linarith+
    then have "0 \<le> sin t" by (rule sin_ge_zero)
    with assms(4) show False by simp
  qed
qed

lemma cos_zero_range:
  assumes "- pi < t" and "t \<le> pi" and "cos t = 0"
  shows "t = pi / 2 \<or> t = - (pi / 2)"
proof (cases "0 \<le> t")
  case True
  with assms(2) have "arccos (cos t) = t" by (simp add: arccos_cos)
  with assms(3) show ?thesis by simp
next
  case False
  with assms(1) have "arccos (cos (- t)) = - t" by (intro arccos_cos) simp_all
  with assms(3) show ?thesis by simp
qed

lemma js_atan2_right: "0 < a \<Longrightarrow> js_atan2 b a = arctan (b / a)"
  by (simp add: js_atan2_def)

lemma js_atan2_upper_left: "a < 0 \<Longrightarrow> 0 \<le> b \<Longrightarrow> js_atan2 b a = arctan (b / a) + pi"
  by (simp add: js_atan2_def)

lemma js_atan2_lower_left: "a < 0 \<Longrightarrow> b < 0 \<Longrightarrow> js_atan2 b a = arctan (b / a) - pi"
  by (simp add: js_atan2_def)

lemma js_atan2_polar:
  assumes rho: "0 < rho" and lo: "- pi < t" and hi: "t \<le> pi"
  shows "js_atan2 (rho * sin t) (rho * cos t) = t"
proof -
  have q: "rho * sin t / (rho * cos t) = tan t"
    using rho by (simp add: tan_def)
  consider (pos) "0 < cos t" | (neg) "cos t < 0" | (zero) "cos t = 0" by linarith
  then show ?thesis
  proof cases
    case pos
    then have "0 < rho * cos t" using rho by simp
    then have "js_atan2 (rho * sin t) (rho * cos t) = arctan (rho * sin t / (rho * cos t))"
      by (rule js_atan2_right)
    also have "\<dots> = arctan (tan t)" by (simp only: q)
    also have "\<dots> = t"
      using cos_pos_range [OF lo hi pos] by (simp add: arctan_tan)
    finally show ?thesis .
  next
    case neg
    then have x: "rho * cos t < 0" using rho by (simp add: mult_less_0_iff)
    show ?thesis
    proof (cases "0 \<le> sin t")
      case True
      then have z: "0 \<le> rho * sin t" using rho by simp
      have "pi / 2 < t" using lo hi neg True by (rule cos_neg_upper)
      with hi have "arctan (tan (t - pi)) = t - pi" by (intro arctan_tan) simp_all
      moreover have "tan (t - pi) = tan t" using tan_periodic_pi [of "t - pi"] by simp
      ultimately have a: "arctan (tan t) = t - pi" by simp
      have "js_atan2 (rho * sin t) (rho * cos t) = arctan (rho * sin t / (rho * cos t)) + pi"
        using x z by (rule js_atan2_upper_left)
      also have "\<dots> = arctan (tan t) + pi" by (simp only: q)
      also have "\<dots> = t" by (simp add: a)
      finally show ?thesis .
    next
      case False
      then have z: "rho * sin t < 0" using rho by (simp add: mult_less_0_iff)
      have "t < - (pi / 2)" using lo hi neg False by (intro cos_neg_lower) simp_all
      with lo have "arctan (tan (t + pi)) = t + pi" by (intro arctan_tan) simp_all
      then have a: "arctan (tan t) = t + pi" by (simp add: tan_periodic_pi)
      have "js_atan2 (rho * sin t) (rho * cos t) = arctan (rho * sin t / (rho * cos t)) - pi"
        using x z by (rule js_atan2_lower_left)
      also have "\<dots> = arctan (tan t) - pi" by (simp only: q)
      also have "\<dots> = t" by (simp add: a)
      finally show ?thesis .
    qed
  next
    case zero
    from cos_zero_range [OF lo hi zero] show ?thesis
    proof
      assume e: "t = pi / 2"
      have "js_atan2 (rho * sin (pi / 2)) (rho * cos (pi / 2)) = pi / 2"
        using rho by (simp add: js_atan2_def)
      then show ?thesis unfolding e .
    next
      assume e: "t = - (pi / 2)"
      have "js_atan2 (rho * sin (- (pi / 2))) (rho * cos (- (pi / 2))) = - (pi / 2)"
        using rho by (simp add: js_atan2_def)
      then show ?thesis unfolding e .
    qed
  qed
qed

lemma sphere_norm:
  assumes r: "0 < r"
  shows "sqrt (r * sin p * cos t * (r * sin p * cos t) + r * cos p * (r * cos p)
         + r * sin p * sin t * (r * sin p * sin t)) = r"
proof -
  have e1: "(cos t)\<^sup>2 + (sin t)\<^sup>2 = 1" and e2: "(sin p)\<^sup>2 + (cos p)\<^sup>2 = 1" by simp_all
  have "r * sin p * cos t * (r * sin p * cos t) + r * cos p * (r * cos p)
         + r * sin p * sin t * (r * sin p * sin t)
        = r\<^sup>2 * ((sin p)\<^sup>2 * ((cos t)\<^sup>2 + (sin t)\<^sup>2) + (cos p)\<^sup>2)"
    by algebra
  also have "\<dots> = r\<^sup>2" by (simp only: e1 e2 mult_1_right)
  finally show ?thesis using r by simp
qed

subsection \<open>History\<close>

lemma saveHistory_fabricRef: "fabricRef (saveHistory s) = fabricRef s"
  by (simp add: saveHistory_def split: option.split)








text \<open>
  Claim C2 at its failing input: the panel is opened for the first time, which sets up
  the history as one snapshot with the cursor at 0, and one object is added. The
  history is then the single new snapshot and the cursor is 1, outside the history.
\<close>

theorem history_invariant_first_edit:
  "history (run fabric_lists [Click (5, 0, 0)] init) = [[]]
   \<and> historyIndex (run fabric_lists [Click (5, 0, 0)] init) = 0
   \<and> history_inv (run fabric_lists [Click (5, 0, 0)] init)
   \<and> history (run fabric_lists [Click (5, 0, 0), CanvasEvent [1]] init) = [[1]]
   \<and> historyIndex (run fabric_lists [Click (5, 0, 0), CanvasEvent [1]] init) = 1
   \<and> \<not> history_inv (run fabric_lists [Click (5, 0, 0), CanvasEvent [1]] init)"
  by (simp add: trace_simps history_inv_def)

subsection \<open>Landmark collection\<close>

text \<open>
  Claim C4, as stated, fails: adding a landmark whose identifier is already in the
  collection changes the collection, which then holds the record twice.
\<close>

theorem addLandmark_duplicate_counterexample:
  "addLandmark outpost ((init :: nat list app)\<lparr> landmarks := Arr [outpost] \<rparr>)
     = Inr (init\<lparr> landmarks := Arr [outpost, outpost] \<rparr>)
   \<and> addLandmark outpost ((init :: nat list app)\<lparr> landmarks := Arr [outpost] \<rparr>)
     \<noteq> Inr (init\<lparr> landmarks := Arr [outpost] \<rparr>)"
  by (simp add: addLandmark_def init_def)

text \<open>
  Claim C4, amended. On the save path the collection is not keyed by the record
  identifier: \<^verbatim>\<open>addLandmark\<close> appends the record at the end of the array whether or not
  a record with that identifier is present, so adding the same record twice leaves
  two more entries.
\<close>

theorem addLandmark_appends:
  assumes "landmarks s = Arr xs"
  shows "addLandmark r s = Inr (s\<lparr> landmarks := Arr (xs @ [r]) \<rparr>)
     \<and> addLandmark r (s\<lparr> landmarks := Arr (xs @ [r]) \<rparr>)
         = Inr (s\<lparr> landmarks := Arr (xs @ [r, r]) \<rparr>)"
  using assms by (simp add: addLandmark_def)

theorem addLandmark_appends_witness:
  "landmarks ((init :: nat list app)\<lparr> landmarks := Arr [outpost] \<rparr>) = Arr [outpost]
   \<and> addLandmark outpost ((init :: nat list app)\<lparr> landmarks := Arr [outpost] \<rparr>)
       = Inr (init\<lparr> landmarks := Arr [outpost, outpost] \<rparr>)"
  using addLandmark_appends [of "(init :: nat list app)\<lparr> landmarks := Arr [outpost] \<rparr>"
      "[outpost]" outpost]
  by simp

subsection \<open>Saving\<close>

text \<open>
  Claim C5, as stated, fails: with a name typed, two clicks on SAVE in a row, none of
  the inserts settled in between, leave two persistence calls in flight.
\<close>

theorem double_save_counterexample:
  "inflight named = []
   \<and> inflight (run fabric_lists [Save] named) = [save_payload fabric_lists [1] named]
   \<and> inflight (run fabric_lists [Save, Save] named)
       = [save_payload fabric_lists [1] named, save_payload fabric_lists [1] named]
   \<and> length (inflight (run fabric_lists [Save, Save] named)) = 2"
proof -
  have n: "js_trim (name named) \<noteq> []"
    by (simp add: trace_simps js_str_def js_trim_def js_whitespace_def)
  have f: "fabricRef named = Some [1]" and i: "inflight named = []"
    by (simp_all add: trace_simps)
  have s1: "run fabric_lists [Save] named =
              named\<lparr> inflight := [save_payload fabric_lists [1] named] \<rparr>"
    using n f i by (simp add: run_def step_Save)
  have s2: "run fabric_lists [Save, Save] named =
              named\<lparr> inflight := [save_payload fabric_lists [1] named,
                                   save_payload fabric_lists [1] named] \<rparr>"
    using n f i by (simp add: run_def step_Save save_payload_def)
  show ?thesis by (simp add: s1 s2 i)
qed

text \<open>
  Claim C5, amended. The editor has no saving state and the SAVE button is never
  disabled: every click on SAVE with a name that is not blank and a canvas at hand
  issues one more persistence call, whether or not earlier calls are still in
  flight; after \<open>n\<close> such clicks \<open>n\<close> more calls are in flight and nothing else has
  changed.
\<close>

theorem save_while_pending:
  assumes "js_trim (name s) \<noteq> []" and "fabricRef s = Some c"
  shows "fst (handleSave lib s) = Pending
     \<and> run lib (replicate n Save) s =
         s\<lparr> inflight := inflight s @ replicate n (save_payload lib c s) \<rparr>"
  using assms by (simp add: repeated_Save handleSave_def)

theorem save_while_pending_witness:
  "js_trim (name named) \<noteq> [] \<and> fabricRef named = Some [1]
   \<and> run fabric_lists (replicate 3 Save) named =
       named\<lparr> inflight := replicate 3 (save_payload fabric_lists [1] named) \<rparr>"
proof -
  have n: "js_trim (name named) \<noteq> []"
    by (simp add: trace_simps js_str_def js_trim_def js_whitespace_def)
  have f: "fabricRef named = Some [1]" and i: "inflight named = []"
    by (simp_all add: trace_simps)
  from save_while_pending [OF n f, of fabric_lists 3] n f i show ?thesis by simp
qed

text \<open>
  Claim C7. When the name is empty after trimming, a save request reports
  \<^verbatim>\<open>Enter a designation\<close> and changes nothing: the panel stays as it is, the canvas,
  the name and the landmark collection are the same, no persistence call is issued.
\<close>

theorem save_blank_name:
  assumes "js_trim (name s) = []"
  shows "handleSave lib s = (Alert (js_str ''Enter a designation''), s)
     \<and> step lib s Save = s"
  using assms by (simp add: handleSave_def step_Save)

theorem save_blank_name_witness:
  "name blank_named = [32, 32, 32] \<and> js_trim (name blank_named) = []
   \<and> isDrawingPanelOpen blank_named
   \<and> handleSave fabric_lists blank_named = (Alert (js_str ''Enter a designation''), blank_named)
   \<and> step fabric_lists blank_named Save = blank_named"
proof -
  have n: "name blank_named = [32, 32, 32]" and o: "isDrawingPanelOpen blank_named"
    by (simp_all add: trace_simps)
  have t: "js_trim (name blank_named) = []"
    by (simp add: n js_trim_def js_whitespace_def)
  from save_blank_name [OF t, of fabric_lists] n o t show ?thesis by simp
qed

text \<open>
  Claim C8. When the insert fails (the promise rejects, or resolves with an error),
  the continuation of \<^verbatim>\<open>handleSave\<close> reports the failure and leaves the state as it
  is; a whole save attempt that fails, started with no other insert in flight,
  ends in the state it started from: panel, canvas, history, name and landmarks.
\<close>

theorem save_failure_preserves_state:
  assumes "failure resp"
  shows "snd (handleSave_settled resp s) = s
     \<and> (\<exists>msg. fst (handleSave_settled resp s) = AlertSaveFailed (PersistenceError msg))
     \<and> (inflight s = [] \<longrightarrow> run lib [Save, Settle resp] s = s)"
proof -
  have "\<exists>msg. fst (handleSave_settled resp s) = AlertSaveFailed (PersistenceError msg)"
    using assms by (cases resp) (simp_all add: handleSave_settled_def)
  with assms show ?thesis by (simp add: settled_failure failed_attempt)
qed

theorem save_failure_preserves_state_witness:
  "failure (Failed (js_str ''timeout'')) \<and> inflight named = []
   \<and> isDrawingPanelOpen named
   \<and> inflight (run fabric_lists [Save] named) = [save_payload fabric_lists [1] named]
   \<and> run fabric_lists [Save, Settle (Failed (js_str ''timeout''))] named = named
   \<and> snd (handleSave_settled (Failed (js_str ''timeout'')) named) = named"
proof -
  have n: "js_trim (name named) \<noteq> []"
    by (simp add: trace_simps js_str_def js_trim_def js_whitespace_def)
  have f: "fabricRef named = Some [1]" and i: "inflight named = []"
    and o: "isDrawingPanelOpen named"
    by (simp_all add: trace_simps)
  have p: "inflight (run fabric_lists [Save] named) = [save_payload fabric_lists [1] named]"
    using n f i by (simp add: run_def step_Save)
  have fl: "failure (Failed (js_str ''timeout''))" by simp
  from save_failure_preserves_state [OF fl, of named fabric_lists] i o p fl
  show ?thesis by simp
qed

subsection \<open>Filters\<close>




subsection \<open>Pick-to-geo conversion\<close>

text \<open>
  Claim C6, as stated, fails: for the point at the centre of the sphere the handler
  raises nothing. It computes the latitude NaN (from \<open>0 / 0\<close>) and the longitude 0,
  and opens the drawing panel with them.
\<close>

theorem degenerate_pick_counterexample:
  "handleClick_latlng (0, 0, 0) = (NaN, Num 0)
   \<and> isDrawingPanelOpen (step fabric_lists init (Click (0, 0, 0)))
   \<and> currentLat (step fabric_lists init (Click (0, 0, 0))) = NaN
   \<and> currentLng (step fabric_lists init (Click (0, 0, 0))) = Num 0"
  by (simp add: handleClick_latlng_origin trace_simps)

text \<open>
  Claim C6, amended. For the point at the centre of the sphere the conversion does not
  fail and is not guarded: in both page variants the latitude computed is NaN (from
  \<open>0 / 0\<close>), and the click handler opens the drawing panel with it. Nothing is said
  of the longitude, which depends on the signs of the zero coordinates.
\<close>

theorem degenerate_pick_opens_panel:
  "fst (handleClick_latlng (0, 0, 0)) = NaN
   \<and> fst (handleClick_latlng_part_002 (0, 0, 0)) = NaN
   \<and> isDrawingPanelOpen (handle lib (Click (0, 0, 0)) s)
   \<and> currentLat (handle lib (Click (0, 0, 0)) s) = NaN"
  by (simp add: handle_def setDrawingPanel_def handleClick_latlng_origin
      handleClick_latlng_part_002_def js_atan2_def js_rem_def)

text \<open>
  With claim C3 (X1). In exact real arithmetic the two conversions are inverse to each
  other away from the poles: for every radius \<open>r > 0\<close>, latitude in \<open>(-90, 90)\<close> and
  longitude in \<open>(-180, 180]\<close>, the click handler applied to the Cartesian position
  returns the latitude and the longitude themselves. Rounding is not part of this
  statement.
\<close>

theorem geo_roundtrip_exact:
  assumes r: "0 < r" and lat: "- 90 < lat" "lat < 90" and lng: "- 180 < lng" "lng \<le> 180"
  shows "handleClick_latlng (geo_position r lat lng) = (Num lat, Num lng)"
proof -
  define p where "p = (90 - lat) * pi / 180"
  define t where "t = lng * pi / 180"
  have pe: "p = pi * ((90 - lat) / 180)" and te: "t = pi * (lng / 180)"
    by (simp_all add: p_def t_def)
  have p0: "0 < p" using lat by (simp add: pe)
  have "pi * ((90 - lat) / 180) < pi * 1"
    using lat by (intro mult_strict_left_mono) simp_all
  then have p1: "p < pi" by (simp add: pe)
  have "pi * (- 1) < pi * (lng / 180)"
    using lng by (intro mult_strict_left_mono) simp_all
  then have t0: "- pi < t" by (simp add: te)
  have "pi * (lng / 180) \<le> pi * 1"
    using lng by (intro mult_left_mono) simp_all
  then have t1: "t \<le> pi" by (simp add: te)
  have sp: "0 < sin p" using p0 p1 by (rule sin_gt_zero)
  have g: "geo_position r lat lng = (r * sin p * cos t, r * cos p, r * sin p * sin t)"
    by (simp add: geo_position_def p_def t_def Let_def)
  have n: "sqrt (r * sin p * cos t * (r * sin p * cos t) + r * cos p * (r * cos p)
         + r * sin p * sin t * (r * sin p * sin t)) = r"
    using r by (rule sphere_norm)
  have a: "arccos (cos p) = p" using p0 p1 by (simp add: arccos_cos)
  have at: "js_atan2 (r * sin p * sin t) (r * sin p * cos t) = t"
    using js_atan2_polar [of "r * sin p" t] r sp t0 t1 by simp
  have lngv: "t * 180 / pi = lng" by (simp add: t_def)
  have rem: "js_rem lng 360 = lng" using lng by (intro js_rem_small) simp
  have d: "js_div (Num (r * cos p)) (Num r) = Num (cos p)" using r by simp
  have ac: "js_acos (Num (cos p)) = Num p" by (simp add: a)
  have m: "js_div (js_mul (Num p) (Num 180)) (Num pi) = Num (90 - lat)"
    by (simp add: p_def)
  have latv: "js_sub (Num 90)
      (js_div (js_mul (js_acos (js_div (Num (r * cos p)) (Num r))) (Num 180)) (Num pi)) = Num lat"
    by (simp only: d ac m js_sub.simps) simp
  have lngv2: "js_rem (js_atan2 (r * sin p * sin t) (r * sin p * cos t) * 180 / pi) 360 = lng"
    by (simp only: at lngv rem)
  show ?thesis
    unfolding g handleClick_latlng_def prod.case Let_def n latv lngv2
    using lng by simp
qed

theorem geo_roundtrip_exact_witness:
  "(0 :: real) < 5 \<and> (- 90 :: real) < 12.34 \<and> (12.34 :: real) < 90
   \<and> (- 180 :: real) < - 56.78 \<and> (- 56.78 :: real) \<le> 180
   \<and> handleClick_latlng (geo_position 5 12.34 (- 56.78)) = (Num 12.34, Num (- 56.78))"
  using geo_roundtrip_exact [of 5 "12.34" "- 56.78"] by simp

text \<open>
  Claim C10. The click handlers of the two page variants compute the same latitude
  and longitude for every point (whether or not it is the centre).
\<close>

theorem handleClick_variants_agree:
  "handleClick_latlng_part_002 p = handleClick_latlng p"
  by (simp add: handleClick_latlng_def handleClick_latlng_part_002_def Let_def
      split: prod.split)

end
